theory Spec2Isabelle
  imports Complex_Main
begin

section \<open>Dense matrices\<close>

text \<open>
  The sources compute with \<^verbatim>\<open>Eigen::MatrixXd\<close> and \<^verbatim>\<open>Eigen::VectorXd\<close>: a number of
  rows, a number of columns and one coefficient per position. A vector is a matrix with
  one column. Coefficients are \<^verbatim>\<open>double\<close> in the program and exact reals here, so
  rounding is outside this development.
\<close>

record matrix =
  rows :: nat
  cols :: nat
  coeff :: "nat \<Rightarrow> nat \<Rightarrow> real"

text \<open>A matrix of the given size; positions outside the size hold no data.\<close>

definition mk :: "nat \<Rightarrow> nat \<Rightarrow> (nat \<Rightarrow> nat \<Rightarrow> real) \<Rightarrow> matrix" where
  "mk r c f = \<lparr>rows = r, cols = c, coeff = (\<lambda>i j. if i < r \<and> j < c then f i j else 0)\<rparr>"

text \<open>A matrix literal, written row by row.\<close>

definition of_rows :: "real list list \<Rightarrow> matrix" where
  "of_rows xs = mk (length xs) (case xs of [] \<Rightarrow> 0 | x # _ \<Rightarrow> length x) (\<lambda>i j. xs ! i ! j)"

text \<open>\<^verbatim>\<open>Eigen::MatrixXd::Zero(r, c)\<close>.\<close>

definition MatrixXd_Zero :: "nat \<Rightarrow> nat \<Rightarrow> matrix" where
  "MatrixXd_Zero r c = mk r c (\<lambda>i j. 0)"

text \<open>\<^verbatim>\<open>M.transpose()\<close>.\<close>

definition transpose_m :: "matrix \<Rightarrow> matrix" where
  "transpose_m M = mk (cols M) (rows M) (\<lambda>i j. coeff M j i)"

text \<open>
  \<^verbatim>\<open>A + B\<close> and \<^verbatim>\<open>A += B\<close>. Eigen asserts that both operands have the same size; the
  callers below test \<open>same_size\<close> first and fail where the assertion would.
\<close>

definition same_size :: "matrix \<Rightarrow> matrix \<Rightarrow> bool" where
  "same_size A B \<longleftrightarrow> rows A = rows B \<and> cols A = cols B"

definition madd :: "matrix \<Rightarrow> matrix \<Rightarrow> matrix" where
  "madd A B = mk (rows A) (cols A) (\<lambda>i j. coeff A i j + coeff B i j)"

text \<open>\<^verbatim>\<open>s * A\<close> for a scalar \<open>s\<close>.\<close>

definition mscale :: "real \<Rightarrow> matrix \<Rightarrow> matrix" where
  "mscale s A = mk (rows A) (cols A) (\<lambda>i j. s * coeff A i j)"

text \<open>
  \<^verbatim>\<open>A * B\<close>. Eigen asserts \<open>cols A = rows B\<close>; the callers below test it first.
\<close>

definition mmul :: "matrix \<Rightarrow> matrix \<Rightarrow> matrix" where
  "mmul A B = mk (rows A) (cols B) (\<lambda>i j. \<Sum>l<cols A. coeff A i l * coeff B l j)"

text \<open>
  \<^verbatim>\<open>M.inverse()\<close> is a routine of the Eigen library, not of this repository. Its
  coefficients are taken as a parameter \<open>eigen_inverse\<close> of the model; the result has the size of
  the argument, as in Eigen.
\<close>

definition inverse_m :: "(matrix \<Rightarrow> matrix) \<Rightarrow> matrix \<Rightarrow> matrix" where
  "inverse_m eigen_inverse M = mk (rows M) (cols M) (coeff (eigen_inverse M))"

text \<open>The identity matrix, used to say what an inverse is.\<close>

definition identity_m :: "nat \<Rightarrow> matrix" where
  "identity_m n = mk n n (\<lambda>i j. if i = j then 1 else 0)"

text \<open>
  The corner blocks written by \<^verbatim>\<open>compute_value_matrix\<close>:
  \<^verbatim>\<open>Vt.topRightCorner(n, 1) += X.topRows(n)\<close>,
  \<^verbatim>\<open>Vt.bottomLeftCorner(1, n) += X.topRows(n).transpose()\<close> and
  \<^verbatim>\<open>Vt.bottomRightCorner(1, 1) += C\<close>.
\<close>

definition topRightCorner_add :: "nat \<Rightarrow> matrix \<Rightarrow> matrix \<Rightarrow> matrix" where
  "topRightCorner_add n Vt X =
     mk (rows Vt) (cols Vt)
       (\<lambda>i j. coeff Vt i j + (if i < n \<and> j = cols Vt - 1 then coeff X i 0 else 0))"

definition bottomLeftCorner_add :: "nat \<Rightarrow> matrix \<Rightarrow> matrix \<Rightarrow> matrix" where
  "bottomLeftCorner_add n Vt X =
     mk (rows Vt) (cols Vt)
       (\<lambda>i j. coeff Vt i j + (if i = rows Vt - 1 \<and> j < n then coeff X j 0 else 0))"

definition bottomRightCorner_add :: "matrix \<Rightarrow> matrix \<Rightarrow> matrix" where
  "bottomRightCorner_add Vt C =
     mk (rows Vt) (cols Vt)
       (\<lambda>i j. coeff Vt i j + (if i = rows Vt - 1 \<and> j = cols Vt - 1 then coeff C 0 0 else 0))"



section \<open>Failures\<close>

text \<open>
  The ways a call of the modelled functions ends without a result: one of the checking
  macros of \<^verbatim>\<open>utils/debug_utils.hh\<close> raises, an Eigen size assertion stops the program,
  or a null pointer is dereferenced.
\<close>

datatype error =
  IS_GREATER_failed
  | IS_EQUAL_failed
  | IS_ALMOST_EQUAL_failed
  | eigen_assert_failed
  | null_dereference

text \<open>
  Modelled from the spec: the macros \<^verbatim>\<open>IS_GREATER\<close>, \<^verbatim>\<open>IS_EQUAL\<close> and
  \<^verbatim>\<open>IS_ALMOST_EQUAL\<close> of \<^verbatim>\<open>utils/debug_utils.hh\<close>, which is not among the sources. A
  failed check raises (\<^verbatim>\<open>ilqr.cc\<close>: "Throw error if sum is not close to 1.0"; the
  specification: construction fails if the probabilities "do not sum to 1 +- 1e-3").
  Each constant below is the condition under which execution continues.
\<close>

definition IS_GREATER :: "int \<Rightarrow> int \<Rightarrow> bool" where
  "IS_GREATER a b \<longleftrightarrow> a > b"

definition IS_EQUAL :: "int \<Rightarrow> int \<Rightarrow> bool" where
  "IS_EQUAL a b \<longleftrightarrow> a = b"

definition IS_ALMOST_EQUAL :: "real \<Rightarrow> real \<Rightarrow> real \<Rightarrow> bool" where
  "IS_ALMOST_EQUAL a b eps \<longleftrightarrow> \<bar>a - b\<bar> \<le> eps"

section \<open>The hindsight solver's constructor (\<^verbatim>\<open>templated/iLQR_hindsight.hh\<close>)\<close>

type_synonym Dynamics = "matrix \<Rightarrow> matrix \<Rightarrow> matrix"
type_synonym Cost = "matrix \<Rightarrow> matrix \<Rightarrow> int \<Rightarrow> real"
type_synonym FinalCost = "matrix \<Rightarrow> real"

text \<open>
  \<^verbatim>\<open>struct HindsightSplit\<close>. A \<^verbatim>\<open>std::function\<close> may be empty, which is \<open>None\<close>.
\<close>

record HindsightSplit =
  dynamics :: "Dynamics option"
  final_cost :: "FinalCost option"
  cost :: "Cost option"
  probability :: real

text \<open>\<^verbatim>\<open>HindsightSplit() = default\<close>: empty closures, probability 0.\<close>

definition HindsightSplit_default :: HindsightSplit where
  "HindsightSplit_default = \<lparr>dynamics = None, final_cost = None, cost = None, probability = 0\<rparr>"

text \<open>\<^verbatim>\<open>struct HindsightBranch\<close>: the split, the gains and the linearization points.\<close>

record HindsightBranch =
  split :: HindsightSplit
  Ks :: "matrix list"
  ks :: "matrix list"
  xhat :: "matrix list"
  uhat :: "matrix list"

definition HindsightBranch_default :: HindsightBranch where
  "HindsightBranch_default =
     \<lparr>split = HindsightSplit_default, Ks = [], ks = [], xhat = [], uhat = []\<rparr>"

text \<open>
  \<^verbatim>\<open>class iLQRHindsightSolver\<close>; \<open>branches\<close> is the member \<^verbatim>\<open>branches_\<close>. The members
  \<^verbatim>\<open>K0_\<close>, \<^verbatim>\<open>k0_\<close>, \<^verbatim>\<open>x0_\<close> and \<^verbatim>\<open>u0_\<close> are not written by the constructor and are left
  out of the record.
\<close>

record iLQRHindsightSolver =
  branches :: "HindsightBranch list"

text \<open>
  The body of the constructor's loop, for index \<open>i\<close>:
  \<^verbatim>\<open>total_prob += splits[i].probability; branches_[i].split = splits[i];\<close>
\<close>

definition ctor_step ::
  "HindsightSplit list \<Rightarrow> nat \<Rightarrow> real \<times> HindsightBranch list \<Rightarrow> real \<times> HindsightBranch list" where
  "ctor_step splits i st =
     (fst st + probability (splits ! i),
      (snd st)[i := (snd st ! i)\<lparr>split := splits ! i\<rparr>])"

text \<open>
  The loop \<^verbatim>\<open>for (size_t i = 0; i < splits.size(); ++i)\<close>, started with
  \<^verbatim>\<open>total_prob = 0\<close> and the resized \<^verbatim>\<open>branches_\<close>.
\<close>

definition ctor_loop :: "HindsightSplit list \<Rightarrow> real \<times> HindsightBranch list" where
  "ctor_loop splits =
     fold (ctor_step splits) [0..<length splits]
       (0, replicate (length splits) HindsightBranch_default)"

text \<open>
  The constructor \<^verbatim>\<open>iLQRHindsightSolver(const std::vector<HindsightSplit> &splits)\<close>:
  \<^verbatim>\<open>IS_GREATER(splits.size(), 0)\<close>, the loop, then
  \<^verbatim>\<open>IS_ALMOST_EQUAL(total_prob, 1.0, 1e-3)\<close>.
\<close>

definition iLQRHindsightSolver_new :: "HindsightSplit list \<Rightarrow> error + iLQRHindsightSolver" where
  "iLQRHindsightSolver_new splits =
     (if \<not> IS_GREATER (int (length splits)) 0 then Inl IS_GREATER_failed
      else let (total_prob, branches) = ctor_loop splits
           in if \<not> IS_ALMOST_EQUAL total_prob 1 (1 / 1000) then Inl IS_ALMOST_EQUAL_failed
              else Inr \<lparr>branches = branches\<rparr>)"

text \<open>
  The condition the specification gives for a well-formed prior: the probabilities sum
  to 1 within \<^verbatim>\<open>1e-3\<close> and none is negative.
\<close>

definition spec_prior_ok :: "real list \<Rightarrow> bool" where
  "spec_prior_ok ps \<longleftrightarrow> \<bar>sum_list ps - 1\<bar> \<le> 1 / 1000 \<and> list_all (\<lambda>p. 0 \<le> p) ps"

section \<open>Plan nodes of the chain solver (\<^verbatim>\<open>ilqr/ilqr_node.hh\<close>)\<close>

text \<open>
  \<^verbatim>\<open>QuadraticValue\<close> is declared in \<^verbatim>\<open>ilqr/ilqr_taylor_expansions.hh\<close>, which is not
  among the sources; its fields follow the comment on \<^verbatim>\<open>J_\<close>: "The terms of the
  quadratic value function, 1/2 * x^T V x + Gx + W".
\<close>

record QuadraticValue =
  qv_V :: matrix
  qv_G :: matrix
  qv_W :: real

text \<open>
  \<^verbatim>\<open>class ilqr::iLQRNode\<close>, its private members in the order of the header. A name
  cannot end in an underscore here, so the members drop it, and \<^verbatim>\<open>x_\<close>, \<^verbatim>\<open>u_\<close>,
  \<^verbatim>\<open>probability_\<close>, \<^verbatim>\<open>J_\<close>, \<^verbatim>\<open>K_\<close> and \<^verbatim>\<open>k_\<close> carry the prefix \<open>node_\<close>.
\<close>

record iLQRNode =
  dynamics_func :: "Dynamics option"
  cost_func :: "Cost option"
  node_x :: matrix
  node_u :: matrix
  node_probability :: real
  node_J :: QuadraticValue
  node_K :: matrix
  node_k :: matrix
  orig_xstar :: matrix
  orig_ustar :: matrix

text \<open>\<^verbatim>\<open>double probability() const { return probability_; }\<close>\<close>

definition get_probability :: "iLQRNode \<Rightarrow> real" where
  "get_probability node = node_probability node"

text \<open>\<^verbatim>\<open>void set_probability(double p) { probability_ = p; }\<close>\<close>

definition set_probability :: "iLQRNode \<Rightarrow> real \<Rightarrow> iLQRNode" where
  "set_probability node p = node\<lparr>node_probability := p\<rparr>"

section \<open>The plan tree (\<^verbatim>\<open>ilqr/ilqr.cc\<close>)\<close>

text \<open>
  \<^verbatim>\<open>PlanNode\<close> is declared outside the sources; the record has the members that
  \<^verbatim>\<open>ilqr.cc\<close> reads and writes: \<^verbatim>\<open>dynamics_.A\<close>, \<^verbatim>\<open>dynamics_.B\<close>, \<^verbatim>\<open>cost_.Q\<close>,
  \<^verbatim>\<open>cost_.P\<close>, \<^verbatim>\<open>cost_.R\<close>, \<^verbatim>\<open>cost_.b_u\<close>, \<^verbatim>\<open>probability_\<close>, \<^verbatim>\<open>V_\<close>, \<^verbatim>\<open>K_\<close> and \<^verbatim>\<open>k_\<close>
  (the last four with the prefix \<open>plan_\<close>).
\<close>

record PlanNode =
  dynamics_A :: matrix
  dynamics_B :: matrix
  cost_Q :: matrix
  cost_P :: matrix
  cost_R :: matrix
  cost_b_u :: matrix
  plan_probability :: real
  plan_V :: matrix
  plan_K :: matrix
  plan_k :: matrix

text \<open>
  \<^verbatim>\<open>data::Tree<PlanNode>\<close> is declared outside the sources. Tree nodes and plan nodes are
  reached through shared pointers, so both live in a store: a tree node has an address,
  a parent (none for the root) and the address of its plan node; \<open>heap\<close> holds the plan
  nodes.
\<close>

type_synonym TreeNodePtr = nat
type_synonym PlanNodePtr = nat

record Tree =
  node_ids :: "TreeNodePtr list"
  parent :: "TreeNodePtr \<Rightarrow> TreeNodePtr option"
  item :: "TreeNodePtr \<Rightarrow> PlanNodePtr"

text \<open>
  Modelled from the spec: \<^verbatim>\<open>Tree::leaf_nodes()\<close>, which is not among the sources: the
  nodes that are no node's parent, a query that changes nothing.
\<close>

definition leaf_nodes :: "Tree \<Rightarrow> TreeNodePtr list" where
  "leaf_nodes t = filter (\<lambda>n. \<not> list_ex (\<lambda>m. parent t m = Some n) (node_ids t)) (node_ids t)"

text \<open>
  \<^verbatim>\<open>class iLQRTree\<close> (members \<^verbatim>\<open>state_dim_\<close>, \<^verbatim>\<open>control_dim_\<close>, \<^verbatim>\<open>ZeroValueMatrix_\<close>,
  \<^verbatim>\<open>tree_\<close>), with the memory its plan-node pointers refer to.
\<close>

record iLQRTree =
  state_dim :: int
  control_dim :: int
  ZeroValueMatrix :: matrix
  tree :: Tree
  heap :: "PlanNodePtr \<Rightarrow> PlanNode"

text \<open>
  \<^verbatim>\<open>void iLQRTree::bellman_tree_backup() { auto all_children = tree_.leaf_nodes(); }\<close>
\<close>

definition bellman_tree_backup :: "iLQRTree \<Rightarrow> iLQRTree" where
  "bellman_tree_backup s = (let all_children = leaf_nodes (tree s) in s)"

text \<open>
  The check at the head of \<^verbatim>\<open>iLQRTree::add_nodes\<close>:
  \<^verbatim>\<open>IS_ALMOST_EQUAL(probability_sum, 1.0, EPS)\<close> with \<^verbatim>\<open>EPS = 1e-5\<close>, on the sum
  accumulated from 0 over the plan nodes.
\<close>

definition EPS :: real where
  "EPS = 1 / 100000"

definition probability_sum :: "PlanNode list \<Rightarrow> real" where
  "probability_sum plan_nodes = foldl (\<lambda>a node. a + plan_probability node) 0 plan_nodes"

definition add_nodes_check :: "PlanNode list \<Rightarrow> bool" where
  "add_nodes_check plan_nodes = IS_ALMOST_EQUAL (probability_sum plan_nodes) 1 EPS"

section \<open>The control policy of a plan node\<close>

text \<open>
  \<^verbatim>\<open>iLQRTree::compute_control_policy(node, Vt1)\<close>. Each line of the source first meets
  Eigen's size assertions for its products and sums, then computes:
  \<^verbatim>\<open>inv_cntrl_term = (R + B.transpose()*Vt1*B).inverse();\<close>
  \<^verbatim>\<open>node->K_ = -1.0 * inv_cntrl_term * (P.transpose() + B.transpose() * Vt1 * A);\<close>
  \<^verbatim>\<open>node->k_ = -1.0 * inv_cntrl_term * b_u;\<close>
  The function has no damping argument, performs no factorization and raises nothing of
  its own.
\<close>

definition compute_control_policy ::
  "(matrix \<Rightarrow> matrix) \<Rightarrow> PlanNode \<Rightarrow> matrix \<Rightarrow> error + PlanNode" where
  "compute_control_policy eigen_inverse node Vt1 =
     (let A = dynamics_A node; B = dynamics_B node;
          P = cost_P node; R = cost_R node; b_u = cost_b_u node
      in if \<not> (rows B = rows Vt1 \<and> cols Vt1 = rows B
               \<and> same_size R (mmul (mmul (transpose_m B) Vt1) B))
         then Inl eigen_assert_failed
         else let inv_cntrl_term =
                    inverse_m eigen_inverse (madd R (mmul (mmul (transpose_m B) Vt1) B))
              in if \<not> (cols Vt1 = rows A
                       \<and> same_size (transpose_m P) (mmul (mmul (transpose_m B) Vt1) A)
                       \<and> cols inv_cntrl_term = rows (transpose_m P))
                 then Inl eigen_assert_failed
                 else if \<not> cols inv_cntrl_term = rows b_u then Inl eigen_assert_failed
                 else Inr (node
                   \<lparr>plan_K := mmul (mscale (-1) inv_cntrl_term)
                                (madd (transpose_m P) (mmul (mmul (transpose_m B) Vt1) A)),
                    plan_k := mmul (mscale (-1) inv_cntrl_term) b_u\<rparr>))"

text \<open>
  The terms of the specification's recursion step, in its words:
  \<open>Q_uu = R + B\<^sup>T V B\<close>, \<open>Q_ux = P\<^sup>T + B\<^sup>T V A\<close>, \<open>Q_u = b_u + B\<^sup>T G\<^sup>T\<close>, and the gains
  \<open>K = - Q_uu\<inverse> Q_ux\<close>, \<open>k = - Q_uu\<inverse> Q_u\<close>.
\<close>

definition spec_Q_uu :: "PlanNode \<Rightarrow> matrix \<Rightarrow> matrix" where
  "spec_Q_uu node V =
     madd (cost_R node) (mmul (mmul (transpose_m (dynamics_B node)) V) (dynamics_B node))"

definition spec_Q_ux :: "PlanNode \<Rightarrow> matrix \<Rightarrow> matrix" where
  "spec_Q_ux node V =
     madd (transpose_m (cost_P node))
       (mmul (mmul (transpose_m (dynamics_B node)) V) (dynamics_A node))"

definition spec_Q_u :: "PlanNode \<Rightarrow> matrix \<Rightarrow> matrix" where
  "spec_Q_u node G =
     madd (cost_b_u node) (mmul (transpose_m (dynamics_B node)) (transpose_m G))"

definition spec_K :: "(matrix \<Rightarrow> matrix) \<Rightarrow> PlanNode \<Rightarrow> matrix \<Rightarrow> matrix" where
  "spec_K eigen_inverse node V =
     mscale (-1) (mmul (inverse_m eigen_inverse (spec_Q_uu node V)) (spec_Q_ux node V))"

definition spec_k :: "(matrix \<Rightarrow> matrix) \<Rightarrow> PlanNode \<Rightarrow> matrix \<Rightarrow> matrix \<Rightarrow> matrix" where
  "spec_k eigen_inverse node V G =
     mscale (-1) (mmul (inverse_m eigen_inverse (spec_Q_uu node V)) (spec_Q_u node G))"

text \<open>
  A Cholesky factorization of \<open>M\<close>: a real lower-triangular \<open>L\<close> of the size of \<open>M\<close> with
  \<open>M = L L\<^sup>T\<close>. The specification's \<open>NonPSDControlHessian\<close> is the case that none exists.
\<close>

definition cholesky_factor :: "matrix \<Rightarrow> matrix \<Rightarrow> bool" where
  "cholesky_factor L M \<longleftrightarrow>
     rows L = rows M \<and> cols L = rows M \<and> cols M = rows M
     \<and> mk (rows L) (cols L) (\<lambda>i j. if i < j then 0 else coeff L i j) = L
     \<and> mmul L (transpose_m L) = mk (rows M) (cols M) (coeff M)"

definition has_cholesky :: "matrix \<Rightarrow> bool" where
  "has_cholesky M \<longleftrightarrow> (\<exists>L. cholesky_factor L M)"

section \<open>The value update\<close>

text \<open>
  \<^verbatim>\<open>iLQRTree::compute_value_matrix(node, Vt1)\<close>, first its terms:
  \<^verbatim>\<open>cntrl_cross_term = P + A.transpose() * Vt1 * B\<close>,
  \<^verbatim>\<open>quadratic_term = Q + A.transpose() * Vt1 * A + cntrl_cross_term*K\<close>,
  \<^verbatim>\<open>linear_term = cntrl_cross_term*k\<close> and \<^verbatim>\<open>constant_term = b_u.transpose() * k\<close>.
\<close>

definition cntrl_cross_term :: "PlanNode \<Rightarrow> matrix \<Rightarrow> matrix" where
  "cntrl_cross_term node Vt1 =
     madd (cost_P node) (mmul (mmul (transpose_m (dynamics_A node)) Vt1) (dynamics_B node))"

definition quadratic_term :: "PlanNode \<Rightarrow> matrix \<Rightarrow> matrix" where
  "quadratic_term node Vt1 =
     madd (madd (cost_Q node) (mmul (mmul (transpose_m (dynamics_A node)) Vt1) (dynamics_A node)))
       (mmul (cntrl_cross_term node Vt1) (plan_K node))"

definition linear_term :: "PlanNode \<Rightarrow> matrix \<Rightarrow> matrix" where
  "linear_term node Vt1 = mmul (cntrl_cross_term node Vt1) (plan_k node)"

definition constant_term :: "PlanNode \<Rightarrow> matrix" where
  "constant_term node = mmul (transpose_m (cost_b_u node)) (plan_k node)"

text \<open>
  The returned matrix: \<^verbatim>\<open>Vt = quadratic_term\<close>, then the three corner updates with
  \<^verbatim>\<open>state_dim_\<close> rows of the linear term. Nothing else is done to \<^verbatim>\<open>Vt\<close>.
\<close>

definition value_matrix_Vt :: "int \<Rightarrow> PlanNode \<Rightarrow> matrix \<Rightarrow> matrix" where
  "value_matrix_Vt sd node Vt1 =
     bottomRightCorner_add
       (bottomLeftCorner_add (nat sd)
          (topRightCorner_add (nat sd) (quadratic_term node Vt1) (linear_term node Vt1))
          (linear_term node Vt1))
       (constant_term node)"

text \<open>
  The function, statement by statement: Eigen's size assertions for lines 141 and 142,
  the two \<^verbatim>\<open>IS_EQUAL\<close> checks of lines 143-144, the assertion for line 146, the two
  \<^verbatim>\<open>IS_EQUAL\<close> checks of lines 147-148 (both on \<^verbatim>\<open>quadratic_term\<close>, the second against
  1), the assertion for line 150, and the block assertions of lines 153-155.
  \<open>sd\<close> is the member \<^verbatim>\<open>state_dim_\<close>.
\<close>

definition compute_value_matrix :: "int \<Rightarrow> PlanNode \<Rightarrow> matrix \<Rightarrow> error + matrix" where
  "compute_value_matrix sd node Vt1 =
     (let A = dynamics_A node; B = dynamics_B node;
          Q = cost_Q node; P = cost_P node; b_u = cost_b_u node;
          K = plan_K node; k = plan_k node;
          cross = cntrl_cross_term node Vt1;
          quad = quadratic_term node Vt1;
          lin = linear_term node Vt1;
          const = constant_term node
      in if \<not> (rows A = rows Vt1 \<and> cols Vt1 = rows B
               \<and> same_size P (mmul (mmul (transpose_m A) Vt1) B))
         then Inl eigen_assert_failed
         else if \<not> (cols Vt1 = rows A
               \<and> same_size Q (mmul (mmul (transpose_m A) Vt1) A)
               \<and> cols cross = rows K
               \<and> same_size (madd Q (mmul (mmul (transpose_m A) Vt1) A)) (mmul cross K))
         then Inl eigen_assert_failed
         else if \<not> IS_EQUAL (int (rows quad)) (sd + 1) then Inl IS_EQUAL_failed
         else if \<not> IS_EQUAL (int (cols quad)) (sd + 1) then Inl IS_EQUAL_failed
         else if \<not> cols cross = rows k then Inl eigen_assert_failed
         else if \<not> IS_EQUAL (int (rows quad)) (sd + 1) then Inl IS_EQUAL_failed
         else if \<not> IS_EQUAL (int (cols quad)) 1 then Inl IS_EQUAL_failed
         else if \<not> cols (transpose_m b_u) = rows k then Inl eigen_assert_failed
         else if \<not> (0 \<le> sd \<and> nat sd \<le> rows quad \<and> 1 \<le> cols quad
               \<and> nat sd \<le> rows lin \<and> cols lin = 1
               \<and> 1 \<le> rows quad \<and> nat sd \<le> cols quad
               \<and> rows const = 1 \<and> cols const = 1)
         then Inl eigen_assert_failed
         else Inr (value_matrix_Vt sd node Vt1))"

section \<open>Backing up to the parents\<close>

text \<open>
  \<^verbatim>\<open>parent_map[child->parent()].push_back(child)\<close>. The map is an
  \<^verbatim>\<open>std::unordered_map\<close>; the association list keeps its keys in the order of their
  first insertion, which stands for the order the hash table visits them in.
\<close>

fun parent_map_push ::
  "(TreeNodePtr option \<times> TreeNodePtr list) list \<Rightarrow> TreeNodePtr option \<Rightarrow> TreeNodePtr
     \<Rightarrow> (TreeNodePtr option \<times> TreeNodePtr list) list" where
  "parent_map_push [] key child = [(key, [child])]"
| "parent_map_push ((k, cs) # m) key child =
     (if k = key then (k, cs @ [child]) # m else (k, cs) # parent_map_push m key child)"

definition build_parent_map ::
  "Tree \<Rightarrow> TreeNodePtr list \<Rightarrow> (TreeNodePtr option \<times> TreeNodePtr list) list" where
  "build_parent_map t all_children =
     foldl (\<lambda>m child. parent_map_push m (parent t child) child) [] all_children"

text \<open>
  The inner loop over the children of one parent, with the accumulator \<^verbatim>\<open>Vt\<close>:
  \<^verbatim>\<open>p = child_plan_node->probability_;\<close>
  \<^verbatim>\<open>Vt_temp = compute_value_matrix(parent_plan_node, child_plan_node->V_);\<close>
  \<^verbatim>\<open>Vt += p*Vt_temp;\<close>
  \<open>pp\<close> is the address of the parent's plan node.
\<close>

fun children_loop ::
  "iLQRTree \<Rightarrow> PlanNodePtr \<Rightarrow> TreeNodePtr list \<Rightarrow> matrix \<Rightarrow> error + matrix" where
  "children_loop s pp [] Vt = Inr Vt"
| "children_loop s pp (child # children) Vt =
     (let child_plan_node = heap s (item (tree s) child);
          p = plan_probability child_plan_node
      in case compute_value_matrix (state_dim s) (heap s pp) (plan_V child_plan_node) of
           Inl e \<Rightarrow> Inl e
         | Inr Vt_temp \<Rightarrow>
             if \<not> same_size Vt (mscale p Vt_temp) then Inl eigen_assert_failed
             else children_loop s pp children (madd Vt (mscale p Vt_temp)))"

text \<open>
  The outer loop over the pairs of the map: \<^verbatim>\<open>Vt = Zero(state_dim_, state_dim_)\<close> (a
  negative size is an Eigen assertion), the parent's plan node (the key of a root's
  entry is the null pointer), the inner loop, then
  \<^verbatim>\<open>parent_plan_node->V_ = Vt; parents.push_back(parent)\<close>.
\<close>

fun parents_loop ::
  "iLQRTree \<Rightarrow> (TreeNodePtr option \<times> TreeNodePtr list) list \<Rightarrow> TreeNodePtr list
     \<Rightarrow> error + (iLQRTree \<times> TreeNodePtr list)" where
  "parents_loop s [] parents = Inr (s, parents)"
| "parents_loop s ((key, children) # m) parents =
     (if state_dim s < 0 then Inl eigen_assert_failed
      else case key of
          None \<Rightarrow> Inl null_dereference
        | Some par \<Rightarrow>
            (let pp = item (tree s) par
             in case children_loop s pp children
                       (MatrixXd_Zero (nat (state_dim s)) (nat (state_dim s))) of
                  Inl e \<Rightarrow> Inl e
                | Inr Vt \<Rightarrow>
                    parents_loop (s\<lparr>heap := (heap s)(pp := (heap s pp)\<lparr>plan_V := Vt\<rparr>)\<rparr>)
                      m (parents @ [par])))"

text \<open>\<^verbatim>\<open>iLQRTree::backup_to_parents(all_children)\<close>.\<close>

definition backup_to_parents ::
  "iLQRTree \<Rightarrow> TreeNodePtr list \<Rightarrow> error + (iLQRTree \<times> TreeNodePtr list)" where
  "backup_to_parents s all_children =
     parents_loop s (build_parent_map (tree s) all_children) []"



section \<open>The feedback law\<close>

text \<open>
  Modelled from the spec: the bodies of \<^verbatim>\<open>iLQRHindsightSolver::compute_control_stepsize\<close>
  (\<^verbatim>\<open>templated/iLQR_hindsight_impl.hh\<close>) and of \<^verbatim>\<open>iLQRNode::compute_control\<close>
  (\<^verbatim>\<open>ilqr_node.cc\<close>) are not among the sources; the headers declare them. The
  specification gives the applied control as
  \<open>u\<^sub>t(x) = u_hat\<^sub>t + \<alpha> k\<^sub>t + K\<^sub>t (x - x_hat\<^sub>t)\<close>, with the precondition \<open>0 \<le> t < T\<close>.
\<close>

definition feedback_law ::
  "matrix \<Rightarrow> matrix \<Rightarrow> matrix \<Rightarrow> matrix \<Rightarrow> matrix \<Rightarrow> real \<Rightarrow> matrix" where
  "feedback_law u_hat k K x_hat x alpha =
     madd (madd u_hat (mscale alpha k)) (mmul K (madd x (mscale (-1) x_hat)))"

text \<open>
  Modelled from the spec: the number of timesteps a branch has gains and linearization
  points for (\<^verbatim>\<open>timesteps()\<close>: "how many timesteps we have computed control policies
  for"), and the control of a branch at timestep \<open>t\<close>. Outside the precondition the
  specification says nothing, and the model has no result.
\<close>

definition branch_timesteps :: "HindsightBranch \<Rightarrow> nat" where
  "branch_timesteps b =
     min (min (length (Ks b)) (length (ks b))) (min (length (xhat b)) (length (uhat b)))"

definition compute_control_stepsize ::
  "iLQRHindsightSolver \<Rightarrow> int \<Rightarrow> matrix \<Rightarrow> int \<Rightarrow> real \<Rightarrow> matrix option" where
  "compute_control_stepsize solver branch_num xt t alpha =
     (if 0 \<le> branch_num \<and> nat branch_num < length (branches solver) \<and> 0 \<le> t
         \<and> nat t < branch_timesteps (branches solver ! nat branch_num)
      then let b = branches solver ! nat branch_num
           in Some (feedback_law (uhat b ! nat t) (ks b ! nat t) (Ks b ! nat t)
                      (xhat b ! nat t) xt alpha)
      else None)"

text \<open>
  Modelled from the spec: \<^verbatim>\<open>iLQRNode::compute_control(xt, alpha)\<close>, "a feedback control
  from state xt except moving only alpha step-size away from the expansion point u()",
  and \<^verbatim>\<open>compute_control(xt)\<close>, the regular feedback control.
\<close>

definition compute_control_alpha :: "iLQRNode \<Rightarrow> matrix \<Rightarrow> real \<Rightarrow> matrix" where
  "compute_control_alpha node xt alpha =
     feedback_law (node_u node) (node_k node) (node_K node) (node_x node) xt alpha"

definition compute_control :: "iLQRNode \<Rightarrow> matrix \<Rightarrow> matrix" where
  "compute_control node xt = compute_control_alpha node xt 1"

section \<open>The line search\<close>







section \<open>Concrete inputs\<close>

text \<open>
  The inputs at which the witnesses and counterexamples below evaluate the program.
  \<open>inverse_1x1\<close> is the inverse of a one-by-one matrix, for the parameter
  \<open>eigen_inverse\<close> where the control has one component. \<open>example_node\<close> is a plan node
  with two state rows and one control.
\<close>

definition inverse_1x1 :: "matrix \<Rightarrow> matrix" where
  "inverse_1x1 M = mk 1 1 (\<lambda>i j. 1 / coeff M 0 0)"

definition example_node :: PlanNode where
  "example_node =
     \<lparr>dynamics_A = of_rows [[1, 0], [0, 1]], dynamics_B = of_rows [[0], [1]],
      cost_Q = of_rows [[1, 0], [0, 1]], cost_P = of_rows [[0], [0]],
      cost_R = of_rows [[1]], cost_b_u = of_rows [[1]],
      plan_probability = 1, plan_V = MatrixXd_Zero 2 2,
      plan_K = MatrixXd_Zero 1 2, plan_k = MatrixXd_Zero 1 1\<rparr>"

definition example_ilqr_node :: "real \<Rightarrow> iLQRNode" where
  "example_ilqr_node p =
     \<lparr>dynamics_func = None, cost_func = None,
      node_x = MatrixXd_Zero 1 1, node_u = MatrixXd_Zero 1 1,
      node_probability = p,
      node_J = \<lparr>qv_V = MatrixXd_Zero 1 1, qv_G = MatrixXd_Zero 1 1, qv_W = 0\<rparr>,
      node_K = MatrixXd_Zero 1 1, node_k = MatrixXd_Zero 1 1,
      orig_xstar = MatrixXd_Zero 1 1, orig_ustar = MatrixXd_Zero 1 1\<rparr>"

text \<open>
  A plan node of state dimension 0 (its matrices are one by one, for the extended
  state), children of it with a given probability and value, and a solver whose tree
  has the root 0 with the children 1 and 2, plan node \<open>n\<close> at address \<open>n\<close>.
\<close>

definition example_parent :: PlanNode where
  "example_parent =
     \<lparr>dynamics_A = of_rows [[1]], dynamics_B = of_rows [[1]],
      cost_Q = of_rows [[1]], cost_P = of_rows [[0]],
      cost_R = of_rows [[1]], cost_b_u = of_rows [[1]],
      plan_probability = 1, plan_V = MatrixXd_Zero 1 1,
      plan_K = of_rows [[0]], plan_k = of_rows [[1]]\<rparr>"

definition example_child :: "real \<Rightarrow> real \<Rightarrow> PlanNode" where
  "example_child p v = example_parent\<lparr>plan_probability := p, plan_V := of_rows [[v]]\<rparr>"


text \<open>A branch with gains and linearization points for two timesteps.\<close>

definition example_branch :: HindsightBranch where
  "example_branch =
     \<lparr>split = HindsightSplit_default\<lparr>probability := 1\<rparr>,
      Ks = [of_rows [[1, 2]], of_rows [[0, 1]]],
      ks = [of_rows [[4]], of_rows [[2]]],
      xhat = [of_rows [[1], [1]], of_rows [[0], [3]]],
      uhat = [of_rows [[10]], of_rows [[20]]]\<rparr>"

section \<open>Facts about matrices\<close>

lemma rows_mk [simp]: "rows (mk r c f) = r"
  by (simp add: mk_def)

lemma cols_mk [simp]: "cols (mk r c f) = c"
  by (simp add: mk_def)

lemma coeff_mk [simp]: "coeff (mk r c f) i j = (if i < r \<and> j < c then f i j else 0)"
  by (simp add: mk_def)

lemma mk_eq_iff:
  "mk r c f = mk r' c' g \<longleftrightarrow> r = r' \<and> c = c' \<and> (\<forall>i<r. \<forall>j<c. f i j = g i j)"
  unfolding mk_def by (auto simp: fun_eq_iff)

section \<open>The constructor of the hindsight solver\<close>

text \<open>
  After \<open>k\<close> rounds the loop has summed the first \<open>k\<close> probabilities and filled the
  first \<open>k\<close> branches.
\<close>

lemma ctor_loop_prefix:
  "k \<le> length splits \<Longrightarrow>
     fold (ctor_step splits) [0..<k] (0, replicate (length splits) d) =
       (sum_list (map probability (take k splits)),
        map (\<lambda>sp. d\<lparr>split := sp\<rparr>) (take k splits) @ replicate (length splits - k) d)"
proof (induction k)
  case 0
  then show ?case by simp
next
  case (Suc k)
  then have k: "k < length splits" by simp
  have upd: "(map (\<lambda>sp. d\<lparr>split := sp\<rparr>) (take k splits) @ replicate (length splits - k) d)
               [k := d\<lparr>split := splits ! k\<rparr>]
             = map (\<lambda>sp. d\<lparr>split := sp\<rparr>) (take (Suc k) splits) @ replicate (length splits - Suc k) d"
  proof -
    from k have "length splits - k = Suc (length splits - Suc k)" by simp
    then show ?thesis using k
      by (simp add: take_Suc_conv_app_nth list_update_append)
  qed
  show ?case using Suc k upd
    by (simp add: ctor_step_def take_Suc_conv_app_nth nth_append)
qed

lemma ctor_loop_eq:
  "ctor_loop splits =
     (sum_list (map probability splits),
      map (\<lambda>sp. HindsightBranch_default\<lparr>split := sp\<rparr>) splits)"
  using ctor_loop_prefix [of "length splits" splits HindsightBranch_default]
  by (simp add: ctor_loop_def)

lemma probability_sum_eq: "probability_sum nodes = sum_list (map plan_probability nodes)"
proof -
  have "foldl (\<lambda>a node. a + plan_probability node) a nodes
          = a + sum_list (map plan_probability nodes)" for a
    by (induction nodes arbitrary: a) simp_all
  then show ?thesis by (simp add: probability_sum_def)
qed

text \<open>
  C4, as the code has it: construction succeeds exactly when the splits vector is not
  empty and its probabilities sum to 1 within \<^verbatim>\<open>1e-3\<close>. The sign of a probability is
  not looked at. The check of \<^verbatim>\<open>iLQRTree::add_nodes\<close> likewise looks at the sum alone,
  within \<^verbatim>\<open>1e-5\<close>.
\<close>

theorem new_succeeds_iff:
  "((\<exists>solver. iLQRHindsightSolver_new splits = Inr solver) \<longleftrightarrow>
      splits \<noteq> [] \<and> \<bar>sum_list (map probability splits) - 1\<bar> \<le> 1 / 1000)
   \<and> (add_nodes_check plan_nodes \<longleftrightarrow>
      \<bar>sum_list (map plan_probability plan_nodes) - 1\<bar> \<le> 1 / 100000)"
  by (auto simp: iLQRHindsightSolver_new_def ctor_loop_eq IS_GREATER_def IS_ALMOST_EQUAL_def
      add_nodes_check_def probability_sum_eq EPS_def)

text \<open>
  C4 as stated fails: the probabilities \<open>3/2\<close> and \<open>-1/2\<close> sum to 1, one of them is
  negative, and the constructor returns a solver; \<^verbatim>\<open>add_nodes\<close> accepts plan nodes with
  these probabilities as well.
\<close>

theorem new_accepts_negative_probability:
  "iLQRHindsightSolver_new
     [\<lparr>dynamics = None, final_cost = None, cost = None, probability = 3 / 2\<rparr>,
      \<lparr>dynamics = None, final_cost = None, cost = None, probability = - 1 / 2\<rparr>]
   = Inr \<lparr>branches =
       [HindsightBranch_default
          \<lparr>split := \<lparr>dynamics = None, final_cost = None, cost = None, probability = 3 / 2\<rparr>\<rparr>,
        HindsightBranch_default
          \<lparr>split := \<lparr>dynamics = None, final_cost = None, cost = None, probability = - 1 / 2\<rparr>\<rparr>]\<rparr>
   \<and> \<not> spec_prior_ok [3 / 2, - 1 / 2]
   \<and> add_nodes_check [example_child (3 / 2) 0, example_child (- 1 / 2) 0]"
  by (simp add: iLQRHindsightSolver_new_def ctor_loop_eq IS_GREATER_def IS_ALMOST_EQUAL_def
      spec_prior_ok_def add_nodes_check_def probability_sum_def EPS_def example_child_def)

text \<open>
  C10: an empty splits vector fails at \<^verbatim>\<open>IS_GREATER\<close>, before any sum is looked at; for
  a non-empty vector the outcome is decided by the check of the sum alone.
\<close>

theorem new_empty_fails_first:
  "iLQRHindsightSolver_new [] = Inl IS_GREATER_failed
   \<and> (splits \<noteq> [] \<longrightarrow>
        iLQRHindsightSolver_new splits =
          (if IS_ALMOST_EQUAL (sum_list (map probability splits)) 1 (1 / 1000)
           then Inr \<lparr>branches = map (\<lambda>sp. HindsightBranch_default\<lparr>split := sp\<rparr>) splits\<rparr>
           else Inl IS_ALMOST_EQUAL_failed))"
  by (simp add: iLQRHindsightSolver_new_def ctor_loop_eq IS_GREATER_def)

theorem new_empty_fails_first_witness:
  "[\<lparr>dynamics = None, final_cost = None, cost = None, probability = 1 / 4\<rparr>] \<noteq> []
   \<and> iLQRHindsightSolver_new
       [\<lparr>dynamics = None, final_cost = None, cost = None, probability = 1 / 4\<rparr>]
     = Inl IS_ALMOST_EQUAL_failed
   \<and> iLQRHindsightSolver_new [] = Inl IS_GREATER_failed"
  using new_empty_fails_first
    [of "[\<lparr>dynamics = None, final_cost = None, cost = None, probability = 1 / 4\<rparr>]"]
  by (simp add: IS_ALMOST_EQUAL_def)

section \<open>The public backup entry point\<close>

text \<open>
  C9: \<^verbatim>\<open>bellman_tree_backup\<close> returns the solver as it was: the tree, every plan node in
  memory with its value, gains and probability, and the dimensions.
\<close>

theorem bellman_tree_backup_unchanged: "bellman_tree_backup s = s"
  by (simp add: bellman_tree_backup_def)

section \<open>Matrix algebra\<close>

lemma rows_madd [simp]: "rows (madd A B) = rows A"
  by (simp add: madd_def)

lemma cols_madd [simp]: "cols (madd A B) = cols A"
  by (simp add: madd_def)

lemma rows_mscale [simp]: "rows (mscale s A) = rows A"
  by (simp add: mscale_def)

lemma cols_mscale [simp]: "cols (mscale s A) = cols A"
  by (simp add: mscale_def)

lemma rows_mmul [simp]: "rows (mmul A B) = rows A"
  by (simp add: mmul_def)

lemma cols_mmul [simp]: "cols (mmul A B) = cols B"
  by (simp add: mmul_def)

lemma rows_transpose_m [simp]: "rows (transpose_m A) = cols A"
  by (simp add: transpose_m_def)

lemma cols_transpose_m [simp]: "cols (transpose_m A) = rows A"
  by (simp add: transpose_m_def)

lemma rows_inverse_m [simp]: "rows (inverse_m ei A) = rows A"
  by (simp add: inverse_m_def)

lemma cols_inverse_m [simp]: "cols (inverse_m ei A) = cols A"
  by (simp add: inverse_m_def)

lemma mmul_mscale_left: "mmul (mscale s A) B = mscale s (mmul A B)"
  by (simp add: mmul_def mscale_def mk_eq_iff sum_distrib_left mult.assoc)





text \<open>The definitions that evaluate a matrix expression on literals.\<close>

lemmas eval_defs =
  Let_def same_size_def of_rows_def mmul_def madd_def mscale_def transpose_m_def inverse_m_def
  MatrixXd_Zero_def identity_m_def mk_eq_iff All_less_Suc eval_nat_numeral lessThan_Suc
  example_node_def inverse_1x1_def spec_Q_uu_def spec_Q_ux_def spec_Q_u_def spec_K_def
  spec_k_def

section \<open>The feedback gains\<close>






text \<open>
  C3, as the code has it: \<^verbatim>\<open>compute_control_policy\<close> inverts \<open>R + B\<^sup>T V B\<close> as it is (no
  damping term, no factorization). Whether it returns depends on the sizes of the
  matrices alone: where they fit it returns the gains, otherwise an Eigen size assertion
  stops it. It has no other failure.
\<close>

theorem control_policy_outcome:
  "compute_control_policy ei node Vt1 =
     (if rows (dynamics_B node) = rows Vt1 \<and> cols Vt1 = rows (dynamics_B node)
         \<and> rows (dynamics_A node) = rows (dynamics_B node)
         \<and> rows (cost_R node) = cols (dynamics_B node)
         \<and> cols (cost_R node) = cols (dynamics_B node)
         \<and> cols (cost_P node) = cols (dynamics_B node)
         \<and> rows (cost_P node) = cols (dynamics_A node)
         \<and> rows (cost_b_u node) = cols (dynamics_B node)
      then Inr (node\<lparr>plan_K := spec_K ei node Vt1,
                     plan_k := mscale (-1) (mmul (inverse_m ei (spec_Q_uu node Vt1)) (cost_b_u node))\<rparr>)
      else Inl eigen_assert_failed)"
  by (auto simp: compute_control_policy_def Let_def same_size_def spec_K_def spec_Q_uu_def
      spec_Q_ux_def mmul_mscale_left)

text \<open>
  C3 as stated fails: with the successor value \<open>-3 I\<close> the matrix \<open>R + B\<^sup>T V B\<close> of
  \<open>example_node\<close> is \<open>(-2)\<close>, which has no Cholesky factorization, and the gains are
  returned all the same.
\<close>

theorem control_policy_without_cholesky:
  "\<not> has_cholesky (spec_Q_uu example_node (of_rows [[- 3, 0], [0, - 3]]))
   \<and> compute_control_policy inverse_1x1 example_node (of_rows [[- 3, 0], [0, - 3]])
     = Inr (example_node\<lparr>plan_K := of_rows [[0, - 3 / 2]], plan_k := of_rows [[1 / 2]]\<rparr>)"
proof
  show "\<not> has_cholesky (spec_Q_uu example_node (of_rows [[- 3, 0], [0, - 3]]))"
  proof
    assume "has_cholesky (spec_Q_uu example_node (of_rows [[- 3, 0], [0, - 3]]))"
    then obtain L where L: "cholesky_factor L (spec_Q_uu example_node (of_rows [[- 3, 0], [0, - 3]]))"
      by (auto simp: has_cholesky_def)
    then have "rows L = 1" "cols L = 1"
      by (simp_all add: cholesky_factor_def eval_defs)
    with L have "coeff L 0 0 * coeff L 0 0 = - 2"
      by (simp add: cholesky_factor_def eval_defs)
    moreover have "coeff L 0 0 * coeff L 0 0 \<ge> 0" by simp
    ultimately show False by simp
  qed
  show "compute_control_policy inverse_1x1 example_node (of_rows [[- 3, 0], [0, - 3]])
     = Inr (example_node\<lparr>plan_K := of_rows [[0, - 3 / 2]], plan_k := of_rows [[1 / 2]]\<rparr>)"
    by (simp add: compute_control_policy_def eval_defs)
qed

section \<open>Writing a probability\<close>

lemma sum_list_update_real:
  "i < length xs \<Longrightarrow> sum_list (xs[i := v]) = sum_list xs - xs ! i + (v::real)"
  by (induction xs arbitrary: i) (auto split: nat.splits)

text \<open>
  C6, as the code has it: \<^verbatim>\<open>set_probability(p)\<close> stores \<open>p\<close> as given and changes
  nothing else of the node; among sibling nodes the sum of the probabilities moves by
  the difference between the new and the old value. Nothing is checked or renormalised.
\<close>

theorem set_probability_stores_unchecked:
  "get_probability (set_probability node p) = p
   \<and> set_probability (set_probability node p) (get_probability node) = node
   \<and> (i < length nodes \<longrightarrow>
        sum_list (map get_probability (nodes[i := set_probability (nodes ! i) p]))
          = sum_list (map get_probability nodes) - get_probability (nodes ! i) + p)"
  by (simp add: get_probability_def set_probability_def map_update sum_list_update_real)

theorem set_probability_stores_unchecked_witness:
  "(0::nat) < length [example_ilqr_node (1 / 2), example_ilqr_node (1 / 2)]
   \<and> sum_list (map get_probability
        ([example_ilqr_node (1 / 2), example_ilqr_node (1 / 2)]
           [0 := set_probability
                   ([example_ilqr_node (1 / 2), example_ilqr_node (1 / 2)] ! 0) (1 / 4)]))
     = 3 / 4"
  using set_probability_stores_unchecked
    [of "example_ilqr_node (1 / 2)" "1 / 4" 0
        "[example_ilqr_node (1 / 2), example_ilqr_node (1 / 2)]"]
  by (simp add: get_probability_def example_ilqr_node_def)

text \<open>
  C6 as stated fails: two sibling nodes with probability \<open>1/2\<close> each satisfy the
  invariant; after \<^verbatim>\<open>set_probability(-5)\<close> on the first, its probability is \<open>-5\<close> and
  the invariant is broken.
\<close>

theorem set_probability_breaks_prior:
  "spec_prior_ok (map get_probability [example_ilqr_node (1 / 2), example_ilqr_node (1 / 2)])
   \<and> \<not> spec_prior_ok (map get_probability
        [set_probability (example_ilqr_node (1 / 2)) (- 5), example_ilqr_node (1 / 2)])
   \<and> get_probability (set_probability (example_ilqr_node (1 / 2)) (- 5)) = - 5"
  by (simp add: spec_prior_ok_def get_probability_def set_probability_def example_ilqr_node_def)

section \<open>The value update\<close>

lemma rows_quadratic_term [simp]: "rows (quadratic_term node V) = rows (cost_Q node)"
  and cols_quadratic_term [simp]: "cols (quadratic_term node V) = cols (cost_Q node)"
  by (simp_all add: quadratic_term_def)

lemma rows_value_matrix_Vt [simp]: "rows (value_matrix_Vt sd node V) = rows (cost_Q node)"
  and cols_value_matrix_Vt [simp]: "cols (value_matrix_Vt sd node V) = cols (cost_Q node)"
  by (simp_all add: value_matrix_Vt_def bottomRightCorner_add_def bottomLeftCorner_add_def
      topRightCorner_add_def)

text \<open>
  Where \<^verbatim>\<open>compute_value_matrix\<close> returns, it returns the assembled matrix; the checks of
  lines 143-148 then force state dimension 0 and a one-by-one \<^verbatim>\<open>quadratic_term\<close>.
\<close>

lemma compute_value_matrix_Inr:
  assumes "compute_value_matrix sd node Vt1 = Inr Vt"
  shows "Vt = value_matrix_Vt sd node Vt1" and "sd = 0"
    and "rows (cost_Q node) = 1" and "cols (cost_Q node) = 1"
    and "rows (dynamics_A node) = rows Vt1" and "cols Vt1 = rows (dynamics_B node)"
    and "cols Vt1 = rows (dynamics_A node)"
  using assms
  by (auto simp: compute_value_matrix_def Let_def IS_EQUAL_def split: if_splits)











section \<open>Mixing the children's values\<close>
















text \<open>
  The accumulator of \<^verbatim>\<open>backup_to_parents\<close> has \<^verbatim>\<open>state_dim_\<close> rows, a backed-up value
  has one row (\<^verbatim>\<open>compute_value_matrix\<close> returns only for state dimension 0): for every
  non-empty list of children the function ends in a failure.
\<close>

lemma parent_map_push_nonempty: "parent_map_push m key child \<noteq> []"
  by (induction m key child rule: parent_map_push.induct) simp_all

lemma parent_map_push_children:
  "\<forall>e \<in> set m. snd e \<noteq> [] \<Longrightarrow> \<forall>e \<in> set (parent_map_push m key child). snd e \<noteq> []"
  by (induction m key child rule: parent_map_push.induct) auto

lemma build_parent_map_children:
  "\<forall>e \<in> set (build_parent_map t all_children). snd e \<noteq> []"
proof -
  have "\<forall>e \<in> set m. snd e \<noteq> [] \<Longrightarrow>
        \<forall>e \<in> set (foldl (\<lambda>m child. parent_map_push m (parent t child) child) m xs).
          snd e \<noteq> []"
    for m xs
  proof (induction xs arbitrary: m)
    case Nil
    then show ?case by simp
  next
    case (Cons x xs)
    from Cons.prems have "\<forall>e \<in> set (parent_map_push m (parent t x) x). snd e \<noteq> []"
      by (rule parent_map_push_children)
    then show ?case using Cons.IH by simp
  qed
  from this [of "[]" all_children] show ?thesis by (simp add: build_parent_map_def)
qed

lemma build_parent_map_nonempty:
  assumes "all_children \<noteq> []"
  shows "build_parent_map t all_children \<noteq> []"
proof -
  have "m \<noteq> [] \<Longrightarrow> foldl (\<lambda>m child. parent_map_push m (parent t child) child) m xs \<noteq> []"
    for m xs
    by (induction xs arbitrary: m) (simp_all add: parent_map_push_nonempty)
  then show ?thesis using assms
    by (cases all_children) (simp_all add: build_parent_map_def parent_map_push_nonempty)
qed

lemma children_loop_zero_fails:
  "children \<noteq> [] \<Longrightarrow>
     \<exists>e. children_loop s pp children (MatrixXd_Zero (nat (state_dim s)) (nat (state_dim s))) = Inl e"
proof (cases children)
  case Nil
  assume "children \<noteq> []"
  with Nil show ?thesis by simp
next
  case (Cons child rest)
  show ?thesis
  proof (cases "compute_value_matrix (state_dim s) (heap s pp)
                  (plan_V (heap s (item (tree s) child)))")
    case (Inl e)
    with Cons show ?thesis by (simp add: Let_def)
  next
    case (Inr T)
    note cv = compute_value_matrix_Inr [OF Inr]
    have "\<not> same_size (MatrixXd_Zero (nat (state_dim s)) (nat (state_dim s)))
             (mscale (plan_probability (heap s (item (tree s) child))) T)"
      using cv(1,2,3) by (simp add: same_size_def MatrixXd_Zero_def)
    with Cons Inr show ?thesis by (simp add: Let_def)
  qed
qed

lemma backup_to_parents_fails:
  "all_children \<noteq> [] \<Longrightarrow> \<exists>e. backup_to_parents s all_children = Inl e"
proof -
  assume ne: "all_children \<noteq> []"
  then obtain key cs m where m: "build_parent_map (tree s) all_children = (key, cs) # m"
    using build_parent_map_nonempty [OF ne, of "tree s"]
    by (cases "build_parent_map (tree s) all_children") auto
  with build_parent_map_children [of "tree s" all_children] have cs: "cs \<noteq> []" by auto
  show ?thesis
  proof (cases key)
    case None
    with m show ?thesis by (simp add: backup_to_parents_def)
  next
    case (Some par)
    from children_loop_zero_fails [OF cs, of s "item (tree s) par"] obtain e
      where "children_loop s (item (tree s) par) cs
               (MatrixXd_Zero (nat (state_dim s)) (nat (state_dim s))) = Inl e" by blast
    with m Some show ?thesis by (simp add: backup_to_parents_def Let_def)
  qed
qed

section \<open>The control of the feedback law\<close>

lemma coeff_feedback_law:
  assumes "same_size u_hat k" and "rows K = rows u_hat" and "cols x = cols u_hat"
    and "same_size x x_hat" and "cols K = rows x"
    and "i < rows u_hat" and "j < cols u_hat"
  shows "coeff (feedback_law u_hat k K x_hat x alpha) i j =
           coeff u_hat i j + alpha * coeff k i j
           + (\<Sum>l<cols K. coeff K i l * (coeff x l j - coeff x_hat l j))"
  using assms
  by (auto simp: feedback_law_def madd_def mscale_def mmul_def same_size_def intro!: sum.cong)

lemma feedback_law_regular:
  assumes "same_size u_hat k"
  shows "feedback_law u_hat k K x_hat x 1 = madd (madd u_hat k) (mmul K (madd x (mscale (-1) x_hat)))"
  using assms
  by (simp add: feedback_law_def madd_def mscale_def mk_eq_iff same_size_def)

text \<open>
  C7, on the feedback law as the specification gives it: for a branch and a timestep
  within the precondition, the control is \<open>u_hat\<^sub>t + \<alpha> k\<^sub>t + K\<^sub>t (x - x_hat\<^sub>t)\<close> on the
  branch's gains and linearization points at \<open>t\<close>; for matrices of fitting sizes this
  is, component by component, \<open>u_hat\<^sub>i + \<alpha> k\<^sub>i + \<Sum>\<^sub>l K\<^sub>i\<^sub>l (x\<^sub>l - x_hat\<^sub>l)\<close>; and with
  \<open>\<alpha> = 1\<close> it is the regular feedback law \<open>u_hat + k + K (x - x_hat)\<close>.
\<close>

theorem control_is_feedback_law:
  "(0 \<le> branch_num \<and> nat branch_num < length (branches solver) \<and> 0 \<le> t
      \<and> nat t < branch_timesteps (branches solver ! nat branch_num) \<longrightarrow>
      compute_control_stepsize solver branch_num xt t alpha =
        Some (feedback_law (uhat (branches solver ! nat branch_num) ! nat t)
                (ks (branches solver ! nat branch_num) ! nat t)
                (Ks (branches solver ! nat branch_num) ! nat t)
                (xhat (branches solver ! nat branch_num) ! nat t) xt alpha))
   \<and> (same_size u_hat k \<and> rows K = rows u_hat \<and> cols x = cols u_hat
        \<and> same_size x x_hat \<and> cols K = rows x \<and> i < rows u_hat \<and> j < cols u_hat \<longrightarrow>
        coeff (feedback_law u_hat k K x_hat x alpha) i j =
          coeff u_hat i j + alpha * coeff k i j
          + (\<Sum>l<cols K. coeff K i l * (coeff x l j - coeff x_hat l j)))
   \<and> (same_size u_hat k \<longrightarrow>
        feedback_law u_hat k K x_hat x 1
          = madd (madd u_hat k) (mmul K (madd x (mscale (-1) x_hat))))
   \<and> compute_control node xt = compute_control_alpha node xt 1"
  using coeff_feedback_law [of u_hat k K x x_hat i j alpha] feedback_law_regular [of u_hat k K x_hat x]
  by (simp add: compute_control_stepsize_def compute_control_def Let_def)

lemma example_control:
  "compute_control_stepsize \<lparr>branches = [example_branch]\<rparr> 0 (of_rows [[2], [5]]) 1 (1 / 2)
   = Some (of_rows [[23]])"
  by (simp add: compute_control_stepsize_def branch_timesteps_def example_branch_def
      feedback_law_def eval_defs)

theorem control_is_feedback_law_witness:
  "compute_control_stepsize \<lparr>branches = [example_branch]\<rparr> 0 (of_rows [[2], [5]]) 1 (1 / 2)
     = Some (of_rows [[23]])
   \<and> of_rows [[23]] = feedback_law (of_rows [[20]]) (of_rows [[2]]) (of_rows [[0, 1]])
        (of_rows [[0], [3]]) (of_rows [[2], [5]]) (1 / 2)
   \<and> coeff (of_rows [[23]]) 0 0 = 20 + (1 / 2) * 2 + (0 * (2 - 0) + 1 * (5 - 3))
   \<and> feedback_law (of_rows [[20]]) (of_rows [[2]]) (of_rows [[0, 1]])
        (of_rows [[0], [3]]) (of_rows [[2], [5]]) 1 = of_rows [[24]]"
proof -
  let ?s = "\<lparr>branches = [example_branch]\<rparr>"
  have pre: "(0::int) \<le> 0 \<and> nat 0 < length (branches ?s) \<and> (0::int) \<le> 1
      \<and> nat 1 < branch_timesteps (branches ?s ! nat 0)"
    by (simp add: branch_timesteps_def example_branch_def)
  have dims: "same_size (of_rows [[20]]) (of_rows [[2]]) \<and> rows (of_rows [[0, 1]]) = rows (of_rows [[20]])
      \<and> cols (of_rows [[2], [5]]) = cols (of_rows [[20]])
      \<and> same_size (of_rows [[2], [5]]) (of_rows [[0], [3]])
      \<and> cols (of_rows [[0, 1]]) = rows (of_rows [[2], [5]])
      \<and> (0::nat) < rows (of_rows [[20]]) \<and> (0::nat) < cols (of_rows [[20]])"
    by (simp add: eval_defs)
  note inst = control_is_feedback_law [of 0 ?s 1 "of_rows [[2], [5]]" "1 / 2"
      "of_rows [[20]]" "of_rows [[2]]" "of_rows [[0, 1]]" "of_rows [[2], [5]]" "of_rows [[0], [3]]" 0 0]
  from inst pre have 1: "compute_control_stepsize ?s 0 (of_rows [[2], [5]]) 1 (1 / 2) =
        Some (feedback_law (uhat (branches ?s ! nat 0) ! nat 1)
                (ks (branches ?s ! nat 0) ! nat 1)
                (Ks (branches ?s ! nat 0) ! nat 1)
                (xhat (branches ?s ! nat 0) ! nat 1) (of_rows [[2], [5]]) (1 / 2))"
    by blast
  from inst dims have 2: "coeff (feedback_law (of_rows [[20]]) (of_rows [[2]]) (of_rows [[0, 1]])
        (of_rows [[0], [3]]) (of_rows [[2], [5]]) (1 / 2)) 0 0 =
          coeff (of_rows [[20]]) 0 0 + (1 / 2) * coeff (of_rows [[2]]) 0 0
          + (\<Sum>l<cols (of_rows [[0, 1]]). coeff (of_rows [[0, 1]]) 0 l
               * (coeff (of_rows [[2], [5]]) l 0 - coeff (of_rows [[0], [3]]) l 0))"
    by blast
  from inst dims have 3: "feedback_law (of_rows [[20]]) (of_rows [[2]]) (of_rows [[0, 1]])
        (of_rows [[0], [3]]) (of_rows [[2], [5]]) 1
      = madd (madd (of_rows [[20]]) (of_rows [[2]]))
          (mmul (of_rows [[0, 1]]) (madd (of_rows [[2], [5]]) (mscale (-1) (of_rows [[0], [3]]))))"
    by blast
  have 4: "of_rows [[23]] = feedback_law (of_rows [[20]]) (of_rows [[2]]) (of_rows [[0, 1]])
        (of_rows [[0], [3]]) (of_rows [[2], [5]]) (1 / 2)"
    using 1 example_control by (simp add: example_branch_def)
  have 5: "coeff (of_rows [[23]]) 0 0 = 20 + (1 / 2) * 2 + (0 * (2 - 0) + 1 * (5 - 3))"
    using 2 4 by (simp add: eval_defs)
  have 6: "feedback_law (of_rows [[20]]) (of_rows [[2]]) (of_rows [[0, 1]])
        (of_rows [[0], [3]]) (of_rows [[2], [5]]) 1 = of_rows [[24]]"
    unfolding 3 by (simp add: eval_defs)
  show ?thesis using example_control 4 5 6 by blast
qed

section \<open>Termination of the line search\<close>












end
